theory Spec2Isabelle
  imports Complex_Main
begin

section \<open>Data model of \<^verbatim>\<open>src/components/Game.tsx\<close>\<close>

text \<open>
  The simulation lives in one React component. Its world state is the mutable object
  \<^verbatim>\<open>gameStateRef.current\<close> (player, ai, ball, keys) together with the component's
  \<^verbatim>\<open>useState\<close> cells (score, timeLeft, gameOver, powerUps, kickPower, isCharging,
  isPaused). The model threads all of it through one record.

  Conventions of the embedding:
  \<^item> a JavaScript \<^verbatim>\<open>number\<close> that holds a coordinate, a velocity, a size, a power or a
    clock reading is a \<^typ>\<open>real\<close>: rounding, overflow, infinities and NaN of IEEE
    doubles are not part of this model; the score counters and the seconds left are
    \<^typ>\<open>int\<close>. The ball's motion, friction and wall reflection, where underflow
    decides whether the ball slows down, are modelled a second time with every result
    rounded to binary64 (section ``The ball's step in binary64'');
  \<^item> \<^verbatim>\<open>Math.random()\<close> and \<^verbatim>\<open>Date.now()\<close> are inputs of a tick (record \<open>env\<close>);
    one clock reading serves the whole tick, which runs synchronously;
  \<^item> every tick reads the React state cells as they are after the previous event (the
    effect that registers the tick is re-run whenever one of the cells changes);
  \<^item> sounds and drawing have no effect on the world state and are left out.
\<close>

record pos =
  x :: real
  y :: real

record body = pos +
  vx :: real
  vy :: real
  radius :: real

record gameObject = body +
  speed :: real
  maxSpeed :: real
  acceleration :: real
  deceleration :: real
  direction :: real

record ball = body +
  spin :: real
  rotation :: real

datatype ptype = Speed | Sticky | Giant

text \<open>
  \<^verbatim>\<open>type\<close> is read from \<^verbatim>\<open>types[Math.floor(Math.random() * types.length)]\<close>; an index
  outside the array gives \<^verbatim>\<open>undefined\<close>, which is \<open>None\<close> here. \<^verbatim>\<open>startTime\<close> is an
  optional field: \<open>None\<close> until the power-up is picked up.
\<close>

record powerUp = pos +
  ptype :: "ptype option"
  active :: bool
  duration :: real
  startTime :: "real option"

record keys =
  up :: bool
  down :: bool
  left :: bool
  right :: bool
  space :: bool
  shift :: bool

record score =
  playerGoals :: int
  aiGoals :: int

record state =
  player :: gameObject
  ai :: gameObject
  ball :: ball
  keys :: keys
  score :: score
  timeLeft :: int
  gameOver :: bool
  powerUps :: "powerUp list"
  kickPower :: real
  isCharging :: bool
  isPaused :: bool

record env =
  now :: real
  rndSpawn :: real
  rndX :: real
  rndY :: real
  rndType :: real

definition CANVAS_WIDTH :: real where [simp]: "CANVAS_WIDTH = 800"
definition CANVAS_HEIGHT :: real where [simp]: "CANVAS_HEIGHT = 600"
definition PLAYER_RADIUS :: real where [simp]: "PLAYER_RADIUS = 20"
definition BALL_RADIUS :: real where [simp]: "BALL_RADIUS = 12"
definition BASE_FRICTION :: real where [simp]: "BASE_FRICTION = 0.98"
definition BASE_PLAYER_SPEED :: real where [simp]: "BASE_PLAYER_SPEED = 5"
definition SPRINT_MULTIPLIER :: real where [simp]: "SPRINT_MULTIPLIER = 1.5"
definition AI_SPEED :: real where [simp]: "AI_SPEED = 4"
definition KICK_CHARGE_RATE :: real where [simp]: "KICK_CHARGE_RATE = 0.5"
definition MAX_KICK_POWER :: real where [simp]: "MAX_KICK_POWER = 20"
definition POWER_UP_DURATION :: real where [simp]: "POWER_UP_DURATION = 5000"

section \<open>Initial state and reset\<close>

definition initPlayer :: gameObject where
  "initPlayer = \<lparr> x = CANVAS_WIDTH / 4, y = CANVAS_HEIGHT / 2, vx = 0, vy = 0,
     radius = PLAYER_RADIUS, speed = BASE_PLAYER_SPEED,
     maxSpeed = BASE_PLAYER_SPEED * SPRINT_MULTIPLIER,
     acceleration = 0.5, deceleration = 0.8, direction = 1 \<rparr>"

definition initAi :: gameObject where
  "initAi = \<lparr> x = (CANVAS_WIDTH / 4) * 3, y = CANVAS_HEIGHT / 2, vx = 0, vy = 0,
     radius = PLAYER_RADIUS, speed = AI_SPEED, maxSpeed = AI_SPEED,
     acceleration = 0.4, deceleration = 0.8, direction = -1 \<rparr>"

definition initBall :: ball where
  "initBall = \<lparr> x = CANVAS_WIDTH / 2, y = CANVAS_HEIGHT / 2, vx = 0, vy = 0,
     radius = BALL_RADIUS, spin = 0, rotation = 0 \<rparr>"

definition initKeys :: keys where
  "initKeys = \<lparr> up = False, down = False, left = False, right = False,
     space = False, shift = False \<rparr>"

definition initState :: state where
  "initState = \<lparr> player = initPlayer, ai = initAi, ball = initBall, keys = initKeys,
     score = \<lparr> playerGoals = 0, aiGoals = 0 \<rparr>, timeLeft = 180, gameOver = False,
     powerUps = [], kickPower = 0, isCharging = False, isPaused = True \<rparr>"

text \<open>\<^verbatim>\<open>resetGame\<close>: the six setters, then the assignments to the three bodies, then
  \<^verbatim>\<open>setIsPaused(true)\<close>. Fields it does not assign (radius, maxSpeed, keys) stay.\<close>

definition resetGame :: "state \<Rightarrow> state" where
  "resetGame s = s\<lparr>
     score := \<lparr> playerGoals = 0, aiGoals = 0 \<rparr>,
     timeLeft := 180,
     gameOver := False,
     powerUps := [],
     kickPower := 0,
     isCharging := False,
     player := (player s)\<lparr> x := CANVAS_WIDTH / 4, y := CANVAS_HEIGHT / 2, vx := 0, vy := 0,
                           direction := 1 \<rparr>,
     ai := (ai s)\<lparr> x := (CANVAS_WIDTH / 4) * 3, y := CANVAS_HEIGHT / 2, vx := 0, vy := 0,
                   direction := -1 \<rparr>,
     ball := (ball s)\<lparr> x := CANVAS_WIDTH / 2, y := CANVAS_HEIGHT / 2, vx := 0, vy := 0,
                       spin := 0, rotation := 0 \<rparr>,
     isPaused := True \<rparr>"

section \<open>Input events\<close>

datatype key = F11 | Escape | ArrowUp | ArrowDown | ArrowLeft | ArrowRight | Space | Shift
  | OtherKey

fun handleKeyDown :: "key \<Rightarrow> state \<Rightarrow> state" where
  "handleKeyDown F11 s = s"
| "handleKeyDown Escape s = s\<lparr> isPaused := \<not> isPaused s \<rparr>"
| "handleKeyDown ArrowUp s = s\<lparr> keys := (keys s)\<lparr> up := True \<rparr> \<rparr>"
| "handleKeyDown ArrowDown s = s\<lparr> keys := (keys s)\<lparr> down := True \<rparr> \<rparr>"
| "handleKeyDown ArrowLeft s =
     s\<lparr> keys := (keys s)\<lparr> left := True \<rparr>, player := (player s)\<lparr> direction := -1 \<rparr> \<rparr>"
| "handleKeyDown ArrowRight s =
     s\<lparr> keys := (keys s)\<lparr> right := True \<rparr>, player := (player s)\<lparr> direction := 1 \<rparr> \<rparr>"
| "handleKeyDown Space s =
     (let s1 = (if \<not> space (keys s) then s\<lparr> isCharging := True \<rparr> else s)
      in s1\<lparr> keys := (keys s1)\<lparr> space := True \<rparr> \<rparr>)"
| "handleKeyDown Shift s = s\<lparr> keys := (keys s)\<lparr> shift := True \<rparr> \<rparr>"
| "handleKeyDown OtherKey s = s"

fun handleKeyUp :: "key \<Rightarrow> state \<Rightarrow> state" where
  "handleKeyUp ArrowUp s = s\<lparr> keys := (keys s)\<lparr> up := False \<rparr> \<rparr>"
| "handleKeyUp ArrowDown s = s\<lparr> keys := (keys s)\<lparr> down := False \<rparr> \<rparr>"
| "handleKeyUp ArrowLeft s = s\<lparr> keys := (keys s)\<lparr> left := False \<rparr> \<rparr>"
| "handleKeyUp ArrowRight s = s\<lparr> keys := (keys s)\<lparr> right := False \<rparr> \<rparr>"
| "handleKeyUp Space s = s\<lparr> keys := (keys s)\<lparr> space := False \<rparr>, isCharging := False \<rparr>"
| "handleKeyUp Shift s = s\<lparr> keys := (keys s)\<lparr> shift := False \<rparr> \<rparr>"
| "handleKeyUp k s = s"

text \<open>The Start/Pause button: \<^verbatim>\<open>setIsPaused(!isPaused)\<close>.\<close>

definition togglePause :: "state \<Rightarrow> state" where
  "togglePause s = s\<lparr> isPaused := \<not> isPaused s \<rparr>"

text \<open>The one-second interval timer.\<close>

definition timerTick :: "state \<Rightarrow> state" where
  "timerTick s =
     (if \<not> isPaused s then
        (if timeLeft s \<le> 1 then s\<lparr> gameOver := True, timeLeft := 0 \<rparr>
         else s\<lparr> timeLeft := timeLeft s - 1 \<rparr>)
      else s)"

section \<open>The tick: \<^verbatim>\<open>updateGame\<close>\<close>

subsection \<open>Library functions of JavaScript\<close>

text \<open>\<^verbatim>\<open>Math.atan2(y, x)\<close>, by the quadrant of \<open>(x, y)\<close>; \<^verbatim>\<open>Math.atan2(0, 0)\<close> is 0.\<close>

definition atan2 :: "real \<Rightarrow> real \<Rightarrow> real" where
  "atan2 b a =
     (if a > 0 then arctan (b / a)
      else if a < 0 \<and> b \<ge> 0 then arctan (b / a) + pi
      else if a < 0 \<and> b < 0 then arctan (b / a) - pi
      else if b > 0 then pi / 2
      else if b < 0 then - (pi / 2)
      else 0)"

text \<open>A number is falsy when it is 0; an absent optional field is \<^verbatim>\<open>undefined\<close>, falsy too.\<close>

definition truthy :: "real option \<Rightarrow> bool" where
  "truthy v = (case v of None \<Rightarrow> False | Some t \<Rightarrow> t \<noteq> 0)"

subsection \<open>Kick charge (lines 371-375)\<close>

definition chargeKick :: "bool \<Rightarrow> real \<Rightarrow> real" where
  "chargeKick charging kp =
     (if charging \<and> kp < MAX_KICK_POWER then min (kp + KICK_CHARGE_RATE) MAX_KICK_POWER
      else if \<not> charging \<and> kp > 0 then 0
      else kp)"

subsection \<open>Player motion (lines 379-399)\<close>

definition clampToField :: "gameObject \<Rightarrow> gameObject" where
  "clampToField p =
     (let p1 = p\<lparr> x := max (radius p) (min (CANVAS_WIDTH - radius p) (x p)) \<rparr>
      in p1\<lparr> y := max (radius p1) (min (CANVAS_HEIGHT - radius p1) (y p1)) \<rparr>)"

definition integrate :: "gameObject \<Rightarrow> gameObject" where
  "integrate p = (let p1 = p\<lparr> x := x p + vx p \<rparr> in p1\<lparr> y := y p1 + vy p1 \<rparr>)"

definition targetVx :: "keys \<Rightarrow> real" where
  "targetVx k = (if left k then -1 else 0) + (if right k then 1 else 0)"

definition targetVy :: "keys \<Rightarrow> real" where
  "targetVy k = (if up k then -1 else 0) + (if down k then 1 else 0)"

definition currentSpeed :: "keys \<Rightarrow> gameObject \<Rightarrow> real" where
  "currentSpeed k p = (if shift k then maxSpeed p else speed p)"

definition acceleratePlayer :: "keys \<Rightarrow> gameObject \<Rightarrow> gameObject" where
  "acceleratePlayer k p =
     (let tx = targetVx k; ty = targetVy k; c = currentSpeed k p;
          p1 = (if tx \<noteq> 0 \<and> ty \<noteq> 0 then
                  (let norm = sqrt 2;
                       q = p\<lparr> vx := vx p + (tx * c / norm - vx p) * acceleration p \<rparr>
                   in q\<lparr> vy := vy q + (ty * c / norm - vy q) * acceleration q \<rparr>)
                else
                  (let q = p\<lparr> vx := vx p + (tx * c - vx p) * acceleration p \<rparr>
                   in q\<lparr> vy := vy q + (ty * c - vy q) * acceleration q \<rparr>));
          p2 = (if tx = 0 then p1\<lparr> vx := vx p1 * deceleration p1 \<rparr> else p1)
      in (if ty = 0 then p2\<lparr> vy := vy p2 * deceleration p2 \<rparr> else p2))"

definition movePlayer :: "keys \<Rightarrow> gameObject \<Rightarrow> gameObject" where
  "movePlayer k p = clampToField (integrate (acceleratePlayer k p))"

subsection \<open>AI steering and motion (lines 401-414)\<close>

definition steerAI :: "ball \<Rightarrow> gameObject \<Rightarrow> gameObject" where
  "steerAI b a =
     (let dx = x b - x a; dy = y b - y a; dist = sqrt (dx * dx + dy * dy)
      in if dist > 0 then
           (let a1 = a\<lparr> vx := vx a + (dx / dist * speed a - vx a) * acceleration a \<rparr>;
                a2 = a1\<lparr> vy := vy a1 + (dy / dist * speed a1 - vy a1) * acceleration a1 \<rparr>
            in a2\<lparr> direction := (if vx a2 > 0 then 1 else -1) \<rparr>)
         else a)"

definition moveAI :: "ball \<Rightarrow> gameObject \<Rightarrow> gameObject" where
  "moveAI b a = clampToField (integrate (steerAI b a))"

text \<open>
  The same steering with every division made partial: \<open>None\<close> stands for a division whose
  divisor is 0 (in JavaScript it would give an infinity or NaN rather than a number).
\<close>

definition divide_chk :: "real \<Rightarrow> real \<Rightarrow> real option" where
  "divide_chk a b = (if b = 0 then None else Some (a / b))"

definition steerAI_chk :: "ball \<Rightarrow> gameObject \<Rightarrow> gameObject option" where
  "steerAI_chk b a =
     (let dx = x b - x a; dy = y b - y a; dist = sqrt (dx * dx + dy * dy)
      in if dist > 0 then
           (case divide_chk dx dist of
              None \<Rightarrow> None
            | Some qx \<Rightarrow>
               (let a1 = a\<lparr> vx := vx a + (qx * speed a - vx a) * acceleration a \<rparr>
                in case divide_chk dy dist of
                     None \<Rightarrow> None
                   | Some qy \<Rightarrow>
                      (let a2 = a1\<lparr> vy := vy a1 + (qy * speed a1 - vy a1) * acceleration a1 \<rparr>
                       in Some (a2\<lparr> direction := (if vx a2 > 0 then 1 else -1) \<rparr>))))
         else Some a)"

subsection \<open>Ball motion and wall reflection (lines 416-431)\<close>

definition moveBall :: "ball \<Rightarrow> ball" where
  "moveBall b =
     (let b1 = b\<lparr> x := x b + vx b \<rparr>;
          b2 = b1\<lparr> y := y b1 + vy b1 \<rparr>;
          b3 = b2\<lparr> vx := vx b2 * BASE_FRICTION \<rparr>;
          b4 = b3\<lparr> vy := vy b3 * BASE_FRICTION \<rparr>
      in b4\<lparr> rotation := rotation b4 + spin b4 \<rparr>)"

definition bounceX :: "ball \<Rightarrow> ball" where
  "bounceX b =
     (if x b < radius b \<or> x b > CANVAS_WIDTH - radius b then
        (let b1 = b\<lparr> vx := vx b * (- 0.8) \<rparr>
         in b1\<lparr> x := (if x b1 < radius b1 then radius b1 else CANVAS_WIDTH - radius b1) \<rparr>)
      else b)"

definition bounceY :: "ball \<Rightarrow> ball" where
  "bounceY b =
     (if y b < radius b \<or> y b > CANVAS_HEIGHT - radius b then
        (let b1 = b\<lparr> vy := vy b * (- 0.8) \<rparr>
         in b1\<lparr> y := (if y b1 < radius b1 then radius b1 else CANVAS_HEIGHT - radius b1) \<rparr>)
      else b)"

definition wallBounce :: "ball \<Rightarrow> ball" where
  "wallBounce b = bounceY (bounceX b)"

subsection \<open>Collisions (lines 433-464)\<close>

definition checkCollision :: "gameObject \<Rightarrow> ball \<Rightarrow> bool" where
  "checkCollision obj1 obj2 =
     (let dx = x obj1 - x obj2; dy = y obj1 - y obj2; distance = sqrt (dx * dx + dy * dy)
      in distance < radius obj1 + radius obj2)"

definition kickBall :: "real \<Rightarrow> gameObject \<Rightarrow> ball \<Rightarrow> ball" where
  "kickBall kp p b =
     (let angle = atan2 (y b - y p) (x b - x p);
          power = (if kp \<noteq> 0 then kp else 10);
          b1 = b\<lparr> vx := cos angle * power \<rparr>;
          b2 = b1\<lparr> vy := sin angle * power \<rparr>
      in b2\<lparr> spin := (vx p * cos (angle + pi / 2)) * 0.1 \<rparr>)"

definition dribbleBall :: "gameObject \<Rightarrow> ball \<Rightarrow> ball" where
  "dribbleBall p b =
     (let angle = atan2 (y b - y p) (x b - x p);
          overlap = radius p + radius b - sqrt ((x b - x p)\<^sup>2 + (y b - y p)\<^sup>2);
          b1 = b\<lparr> x := x b + cos angle * overlap \<rparr>;
          b2 = b1\<lparr> y := y b1 + sin angle * overlap \<rparr>;
          b3 = b2\<lparr> vx := (vx b2 + vx p) * 0.5 \<rparr>
      in b3\<lparr> vy := (vy b3 + vy p) * 0.5 \<rparr>)"

definition playerBallCollision :: "keys \<Rightarrow> real \<Rightarrow> gameObject \<Rightarrow> ball \<Rightarrow> ball" where
  "playerBallCollision k kp p b =
     (if checkCollision p b then (if space k then kickBall kp p b else dribbleBall p b)
      else b)"

definition aiBallCollision :: "gameObject \<Rightarrow> ball \<Rightarrow> ball" where
  "aiBallCollision a b =
     (if checkCollision a b then
        (let angle = atan2 (y b - y a) (x b - x a);
             b1 = b\<lparr> vx := cos angle * 12 \<rparr>
         in b1\<lparr> vy := sin angle * 12 \<rparr>)
      else b)"

subsection \<open>Goal detection (lines 466-478)\<close>

definition goalCheck :: "state \<Rightarrow> state" where
  "goalCheck s =
     (if x (ball s) < 0 then
        s\<lparr> score := (score s)\<lparr> aiGoals := aiGoals (score s) + 1 \<rparr>,
           ball := (ball s)\<lparr> x := CANVAS_WIDTH / 2, y := CANVAS_HEIGHT / 2, vx := 0, vy := 0 \<rparr> \<rparr>
      else if x (ball s) > CANVAS_WIDTH then
        s\<lparr> score := (score s)\<lparr> playerGoals := playerGoals (score s) + 1 \<rparr>,
           ball := (ball s)\<lparr> x := CANVAS_WIDTH / 2, y := CANVAS_HEIGHT / 2, vx := 0, vy := 0 \<rparr> \<rparr>
      else s)"

subsection \<open>Power-ups (lines 311-359 and 480-491)\<close>

text \<open>\<^verbatim>\<open>applyPowerUp\<close> changes the player and stamps the power-up, which the list shares.\<close>

definition applyPowerUp :: "real \<Rightarrow> powerUp \<Rightarrow> gameObject \<Rightarrow> gameObject \<times> powerUp" where
  "applyPowerUp t pu p =
     ((case ptype pu of
         Some Speed \<Rightarrow> p\<lparr> maxSpeed := maxSpeed p * 1.5 \<rparr>
       | Some Giant \<Rightarrow> p\<lparr> radius := radius p * 1.5 \<rparr>
       | _ \<Rightarrow> p),
      pu\<lparr> startTime := Some t \<rparr>)"

definition touches :: "gameObject \<Rightarrow> powerUp \<Rightarrow> bool" where
  "touches p pu =
     (let dx = x p - x pu; dy = y p - y pu; distance = sqrt (dx * dx + dy * dy)
      in distance < radius p + 10)"

text \<open>The \<^verbatim>\<open>forEach\<close> of lines 480-489, the player threaded through the loop.\<close>

fun pickupPowerUps :: "real \<Rightarrow> gameObject \<Rightarrow> powerUp list \<Rightarrow> gameObject \<times> powerUp list" where
  "pickupPowerUps t p [] = (p, [])"
| "pickupPowerUps t p (pu # pus) =
     (if active pu \<and> \<not> truthy (startTime pu) \<and> touches p pu then
        (let (p1, pu1) = applyPowerUp t pu p;
             (p2, pus2) = pickupPowerUps t p1 pus
         in (p2, pu1 # pus2))
      else
        (let (p2, pus2) = pickupPowerUps t p pus in (p2, pu # pus2)))"

definition revertPowerUp :: "powerUp \<Rightarrow> gameObject \<Rightarrow> gameObject" where
  "revertPowerUp pu p =
     (case ptype pu of
        Some Speed \<Rightarrow> p\<lparr> maxSpeed := BASE_PLAYER_SPEED * SPRINT_MULTIPLIER \<rparr>
      | Some Giant \<Rightarrow> p\<lparr> radius := PLAYER_RADIUS \<rparr>
      | _ \<Rightarrow> p)"

text \<open>The predicate of the \<^verbatim>\<open>filter\<close> in \<^verbatim>\<open>updatePowerUps\<close> returns false (drop) exactly
  here; with \<^verbatim>\<open>startTime\<close> absent the first test has already kept the power-up.\<close>

definition expired :: "real \<Rightarrow> powerUp \<Rightarrow> bool" where
  "expired t pu =
     (if \<not> active pu \<or> \<not> truthy (startTime pu) then False
      else (case startTime pu of None \<Rightarrow> False | Some st \<Rightarrow> t - st \<ge> duration pu))"

fun updatePowerUps :: "real \<Rightarrow> gameObject \<Rightarrow> powerUp list \<Rightarrow> gameObject \<times> powerUp list" where
  "updatePowerUps t p [] = (p, [])"
| "updatePowerUps t p (pu # pus) =
     (if expired t pu then updatePowerUps t (revertPowerUp pu p) pus
      else (let (p2, pus2) = updatePowerUps t p pus in (p2, pu # pus2)))"

definition typeAt :: "int \<Rightarrow> ptype option" where
  "typeAt i =
     (if i = 0 then Some Speed else if i = 1 then Some Sticky else if i = 2 then Some Giant
      else None)"

definition newPowerUp :: "env \<Rightarrow> powerUp" where
  "newPowerUp e =
     \<lparr> x = rndX e * (CANVAS_WIDTH - 40) + 20,
       y = rndY e * (CANVAS_HEIGHT - 40) + 20,
       ptype = typeAt \<lfloor>rndType e * 3\<rfloor>,
       active = True,
       duration = POWER_UP_DURATION,
       startTime = None \<rparr>"

text \<open>\<^verbatim>\<open>spawnPowerUp\<close>: \<open>n\<close> is \<^verbatim>\<open>powerUps.length\<close>, the length of the list the tick
  started with; the new power-up is appended to the list the filter has left.\<close>

definition spawnPowerUp :: "env \<Rightarrow> nat \<Rightarrow> powerUp list \<Rightarrow> powerUp list" where
  "spawnPowerUp e n pus =
     (if rndSpawn e < 0.005 \<and> n < 2 then pus @ [newPowerUp e] else pus)"

subsection \<open>One tick\<close>

text \<open>Lines 371-464: kick charge, the three bodies, the two collisions. The kick reads
  \<^verbatim>\<open>kickPower\<close> as the tick found it; the setter's value is seen by the next tick.\<close>

definition moveBodies :: "state \<Rightarrow> state" where
  "moveBodies s =
     (let kp = chargeKick (isCharging s) (kickPower s);
          p = movePlayer (keys s) (player s);
          a = moveAI (ball s) (ai s);
          b0 = wallBounce (moveBall (ball s));
          b1 = playerBallCollision (keys s) (kickPower s) p b0;
          b2 = aiBallCollision a b1
      in s\<lparr> kickPower := kp, player := p, ai := a, ball := b2 \<rparr>)"

text \<open>Lines 480-491 and 573: pick-up, expiry, spawn.\<close>

definition powerUpStep :: "env \<Rightarrow> nat \<Rightarrow> state \<Rightarrow> state" where
  "powerUpStep e n s =
     (let (p2, pus2) = pickupPowerUps (now e) (player s) (powerUps s);
          (p3, pus3) = updatePowerUps (now e) p2 pus2
      in s\<lparr> player := p3, powerUps := spawnPowerUp e n pus3 \<rparr>)"

definition updateGame :: "env \<Rightarrow> state \<Rightarrow> state" where
  "updateGame e s =
     (if isPaused s then s
      else powerUpStep e (length (powerUps s)) (goalCheck (moveBodies s)))"

section \<open>The ball's step in binary64\<close>










section \<open>Reachable states\<close>

text \<open>\<^verbatim>\<open>Math.random()\<close> returns a number in \<open>[0, 1)\<close>.\<close>

definition randomOk :: "env \<Rightarrow> bool" where
  "randomOk e =
     (0 \<le> rndSpawn e \<and> rndSpawn e < 1 \<and> 0 \<le> rndX e \<and> rndX e < 1 \<and>
      0 \<le> rndY e \<and> rndY e < 1 \<and> 0 \<le> rndType e \<and> rndType e < 1)"

inductive reachable :: "state \<Rightarrow> bool" where
  start: "reachable initState"
| tick: "reachable s \<Longrightarrow> randomOk e \<Longrightarrow> reachable (updateGame e s)"
| keyDown: "reachable s \<Longrightarrow> reachable (handleKeyDown k s)"
| keyUp: "reachable s \<Longrightarrow> reachable (handleKeyUp k s)"
| pauseButton: "reachable s \<Longrightarrow> reachable (togglePause s)"
| timer: "reachable s \<Longrightarrow> reachable (timerTick s)"
| reset: "reachable s \<Longrightarrow> reachable (resetGame s)"

section \<open>Quantities and invariants of the statements\<close>


definition ballSpeed :: "ball \<Rightarrow> real" where
  "ballSpeed b = sqrt ((vx b)\<^sup>2 + (vy b)\<^sup>2)"


text \<open>
  What no event changes: the coefficients of the player and of the AI, the AI's and the
  ball's radius. Power-ups move the player's maxSpeed and radius, never below their base
  values.
\<close>

definition playerBuild :: "gameObject \<Rightarrow> bool" where
  "playerBuild p =
     (speed p = BASE_PLAYER_SPEED \<and> acceleration p = 0.5 \<and> deceleration p = 0.8
      \<and> BASE_PLAYER_SPEED * SPRINT_MULTIPLIER \<le> maxSpeed p \<and> PLAYER_RADIUS \<le> radius p)"

definition aiBuild :: "gameObject \<Rightarrow> bool" where
  "aiBuild a =
     (radius a = PLAYER_RADIUS \<and> speed a = AI_SPEED \<and> maxSpeed a = AI_SPEED
      \<and> acceleration a = 0.4 \<and> deceleration a = 0.8)"

definition stockBuild :: "state \<Rightarrow> bool" where
  "stockBuild s = (playerBuild (player s) \<and> aiBuild (ai s) \<and> radius (ball s) = BALL_RADIUS)"

section \<open>States, inputs and runs used as examples\<close>

text \<open>Single states and inputs.\<close>

definition ballInLeftGoal :: state where
  "ballInLeftGoal = initState\<lparr> ball := initBall\<lparr> x := -1 \<rparr> \<rparr>"

definition aiOnBall :: gameObject where
  "aiOnBall = initAi\<lparr> x := CANVAS_WIDTH / 2, vx := 3, vy := -2 \<rparr>"

definition quietEnv :: env where
  "quietEnv = \<lparr> now = 1000, rndSpawn = 0.5, rndX = 0.5, rndY = 0.5, rndType = 0.5 \<rparr>"

definition rollingBall :: state where
  "rollingBall = initState\<lparr> ball := initBall\<lparr> vx := 1 \<rparr>, isPaused := False \<rparr>"



definition ballExitsLeft :: state where
  "ballExitsLeft = initState\<lparr> ball := initBall\<lparr> x := 5, vx := -6 \<rparr>, isPaused := False \<rparr>"

definition cornered :: state where
  "cornered = initState\<lparr> player := initPlayer\<lparr> x := 20 \<rparr>,
     ball := initBall\<lparr> x := 13, vx := -2 \<rparr>, isPaused := False \<rparr>"

definition kickKeys :: keys where
  "kickKeys = initKeys\<lparr> space := True \<rparr>"

definition ballAtFoot :: ball where
  "ballAtFoot = initBall\<lparr> x := 220 \<rparr>"

definition weakKick :: state where
  "weakKick = initState\<lparr> ball := ballAtFoot, keys := kickKeys, isCharging := True,
     kickPower := 0.5, isPaused := False \<rparr>"

definition oldSpeedBoost :: powerUp where
  "oldSpeedBoost = \<lparr> x = 100, y = 100, ptype = Some Speed, active = True,
     duration = POWER_UP_DURATION, startTime = Some 1000 \<rparr>"

definition boostedState :: state where
  "boostedState = initState\<lparr> player := initPlayer\<lparr> maxSpeed := 16.875 \<rparr>,
     powerUps := [oldSpeedBoost], isPaused := False \<rparr>"

definition lateEnv :: env where
  "lateEnv = \<lparr> now = 7000, rndSpawn = 0.5, rndX = 0.5, rndY = 0.5, rndType = 0.5 \<rparr>"

definition spawnEnv :: env where
  "spawnEnv = \<lparr> now = 1000, rndSpawn = 0.001, rndX = 0.5, rndY = 0.5, rndType = 0.5 \<rparr>"

text \<open>A run in which a speed power-up is picked up while sprinting and then expires.\<close>

definition speedSpawnEnv :: env where
  "speedSpawnEnv = \<lparr> now = 1000, rndSpawn = 0.001, rndX = 9 / 38, rndY = 0.5, rndType = 0.1 \<rparr>"

definition pickEnv :: env where
  "pickEnv = \<lparr> now = 2000, rndSpawn = 0.5, rndX = 0.5, rndY = 0.5, rndType = 0.5 \<rparr>"









text \<open>The state \<^verbatim>\<open>resetGame\<close> leaves behind when the player's radius is \<open>r\<close> and no key
  is held; the inputs of a round that enlarges the player; the state after seven rounds.\<close>

definition grown :: "real \<Rightarrow> state" where
  "grown r = initState\<lparr> player := initPlayer\<lparr> radius := r \<rparr> \<rparr>"

definition giantSpawnEnv :: env where
  "giantSpawnEnv = \<lparr> now = 1000, rndSpawn = 0.001, rndX = 9 / 38, rndY = 0.5, rndType = 0.7 \<rparr>"

definition giantBoost :: powerUp where
  "giantBoost = \<lparr> x = 200, y = 300, ptype = Some Giant, active = True,
     duration = 5000, startTime = None \<rparr>"

definition giantState :: state where
  "giantState = togglePause (grown (10935 / 32))"

section \<open>Verification\<close>

subsection \<open>What a tick does to each part of the state\<close>

lemma ball_updateGame:
  assumes "\<not> isPaused s"
  shows "ball (updateGame e s) = ball (goalCheck (moveBodies s))"
  using assms by (simp add: updateGame_def powerUpStep_def Let_def split_def)

lemma score_updateGame:
  assumes "\<not> isPaused s"
  shows "score (updateGame e s) = score (goalCheck (moveBodies s))"
  using assms by (simp add: updateGame_def powerUpStep_def Let_def split_def)

lemma ball_moveBodies:
  "ball (moveBodies s) =
     aiBallCollision (moveAI (ball s) (ai s))
       (playerBallCollision (keys s) (kickPower s) (movePlayer (keys s) (player s))
          (wallBounce (moveBall (ball s))))"
  by (simp add: moveBodies_def Let_def)

lemma score_moveBodies: "score (moveBodies s) = score s"
  by (simp add: moveBodies_def Let_def)

lemma player_updateGame:
  assumes "\<not> isPaused s"
  shows "player (updateGame e s) =
     fst (updatePowerUps (now e)
            (fst (pickupPowerUps (now e) (movePlayer (keys s) (player s)) (powerUps s)))
            (snd (pickupPowerUps (now e) (movePlayer (keys s) (player s)) (powerUps s))))"
  using assms
  by (simp add: updateGame_def powerUpStep_def goalCheck_def moveBodies_def Let_def split_def)

lemma powerUps_updateGame:
  assumes "\<not> isPaused s"
  shows "powerUps (updateGame e s) =
     spawnPowerUp e (length (powerUps s))
       (snd (updatePowerUps (now e)
            (fst (pickupPowerUps (now e) (movePlayer (keys s) (player s)) (powerUps s)))
            (snd (pickupPowerUps (now e) (movePlayer (keys s) (player s)) (powerUps s)))))"
  using assms
  by (simp add: updateGame_def powerUpStep_def goalCheck_def moveBodies_def Let_def split_def)

lemma ai_updateGame:
  assumes "\<not> isPaused s"
  shows "ai (updateGame e s) = moveAI (ball s) (ai s)"
  using assms
  by (simp add: updateGame_def powerUpStep_def goalCheck_def moveBodies_def Let_def split_def)

lemma keys_updateGame: "keys (updateGame e s) = keys s"
  by (simp add: updateGame_def powerUpStep_def goalCheck_def moveBodies_def Let_def split_def)

lemma isPaused_updateGame: "isPaused (updateGame e s) = isPaused s"
  by (simp add: updateGame_def powerUpStep_def goalCheck_def moveBodies_def Let_def split_def)

lemma kickPower_updateGame:
  "kickPower (updateGame e s) =
     (if isPaused s then kickPower s else chargeKick (isCharging s) (kickPower s))"
  by (simp add: updateGame_def powerUpStep_def goalCheck_def moveBodies_def Let_def split_def)

lemma radius_wallBounce_moveBall: "radius (wallBounce (moveBall b)) = radius b"
  by (simp add: wallBounce_def bounceX_def bounceY_def moveBall_def Let_def)

lemma radius_playerBallCollision: "radius (playerBallCollision k kp p b) = radius b"
  by (simp add: playerBallCollision_def kickBall_def dribbleBall_def Let_def)

lemma radius_aiBallCollision: "radius (aiBallCollision a b) = radius b"
  by (simp add: aiBallCollision_def Let_def)

lemma radius_ball_goalCheck: "radius (ball (goalCheck s)) = radius (ball s)"
  by (simp add: goalCheck_def)

lemma radius_ball_updateGame: "radius (ball (updateGame e s)) = radius (ball s)"
proof (cases "isPaused s")
  case True
  then show ?thesis by (simp add: updateGame_def)
next
  case False
  then show ?thesis
    by (simp add: ball_updateGame radius_ball_goalCheck ball_moveBodies radius_aiBallCollision
        radius_playerBallCollision radius_wallBounce_moveBall)
qed

lemma x_aiBallCollision: "x (aiBallCollision a b) = x b"
  by (simp add: aiBallCollision_def Let_def)

lemma x_kickBall: "x (kickBall kp p b) = x b"
  by (simp add: kickBall_def Let_def)

subsection \<open>Square roots and angles\<close>

lemma sqrt_less_iff_sq:
  fixes a r :: real
  assumes "0 \<le> r"
  shows "sqrt a < r \<longleftrightarrow> a < r\<^sup>2"
proof -
  have "sqrt a < r \<longleftrightarrow> sqrt a < sqrt (r\<^sup>2)" using assms by simp
  also have "\<dots> \<longleftrightarrow> a < r\<^sup>2" by (rule real_sqrt_less_iff)
  finally show ?thesis .
qed

lemma sqrt_40000: "sqrt 40000 = 200"
  using real_sqrt_abs [of 200] by simp

lemma sqrt_354025: "sqrt 354025 = 595"
  using real_sqrt_abs [of 595] by simp

lemma sqrt_400: "sqrt 400 = 20"
  using real_sqrt_abs [of 20] by simp

lemma sqrt_144400: "sqrt 144400 = 380"
  using real_sqrt_abs [of 380] by simp

lemma sqrt_quarter: "sqrt (1 / 4) = 1 / 2"
  using real_sqrt_abs [of "1 / 2"] by (simp add: power2_eq_square)

lemma sqrt_344569: "sqrt 344569 = 587"
  using real_sqrt_abs [of 587] by simp

lemma sqrt_64: "sqrt 64 = 8"
  using real_sqrt_abs [of 8] by simp

lemma sqrt_one_plus_ratio:
  fixes a b :: real
  assumes "a \<noteq> 0"
  shows "sqrt (1 + (b / a)\<^sup>2) = sqrt (a\<^sup>2 + b\<^sup>2) / \<bar>a\<bar>"
proof -
  have "1 + (b / a)\<^sup>2 = (a\<^sup>2 + b\<^sup>2) / a\<^sup>2"
    using assms by (simp add: power_divide add_divide_distrib)
  then show ?thesis by (simp add: real_sqrt_divide)
qed

lemma cos_arctan_ratio:
  fixes a b :: real
  assumes "a \<noteq> 0"
  shows "cos (arctan (b / a)) = \<bar>a\<bar> / sqrt (a\<^sup>2 + b\<^sup>2)"
  using assms by (simp add: cos_arctan sqrt_one_plus_ratio)

lemma sin_arctan_ratio:
  fixes a b :: real
  assumes "a \<noteq> 0"
  shows "sin (arctan (b / a)) = (b / a) * \<bar>a\<bar> / sqrt (a\<^sup>2 + b\<^sup>2)"
  using assms by (simp add: sin_arctan sqrt_one_plus_ratio)

lemma cos_atan2:
  assumes "a \<noteq> 0 \<or> b \<noteq> 0"
  shows "cos (atan2 b a) = a / sqrt (a\<^sup>2 + b\<^sup>2)"
proof -
  consider "a > 0" | "a < 0" "b \<ge> 0" | "a < 0" "b < 0" | "a = 0" "b > 0" | "a = 0" "b < 0"
    using assms by linarith
  then show ?thesis
  proof cases
    case 1
    then show ?thesis by (simp add: atan2_def cos_arctan_ratio)
  next
    case 2
    then show ?thesis by (simp add: atan2_def cos_arctan_ratio)
  next
    case 3
    then have "cos (arctan (b / a) - pi) = - cos (arctan (b / a))"
      by (simp add: cos_diff)
    with 3 show ?thesis by (simp add: atan2_def cos_arctan_ratio)
  next
    case 4
    then show ?thesis by (simp add: atan2_def)
  next
    case 5
    then show ?thesis by (simp add: atan2_def)
  qed
qed

lemma sin_atan2:
  assumes "a \<noteq> 0 \<or> b \<noteq> 0"
  shows "sin (atan2 b a) = b / sqrt (a\<^sup>2 + b\<^sup>2)"
proof -
  consider "a > 0" | "a < 0" "b \<ge> 0" | "a < 0" "b < 0" | "a = 0" "b > 0" | "a = 0" "b < 0"
    using assms by linarith
  then show ?thesis
  proof cases
    case 1
    then show ?thesis by (simp add: atan2_def sin_arctan_ratio)
  next
    case 2
    then show ?thesis by (simp add: atan2_def sin_arctan_ratio)
  next
    case 3
    then have "sin (arctan (b / a) - pi) = - sin (arctan (b / a))"
      by (simp add: sin_diff)
    with 3 show ?thesis by (simp add: atan2_def sin_arctan_ratio)
  next
    case 4
    then show ?thesis by (simp add: atan2_def)
  next
    case 5
    then show ?thesis by (simp add: atan2_def)
  qed
qed

lemma atan2_origin: "atan2 0 0 = 0"
  by (simp add: atan2_def)

subsection \<open>The power-up list\<close>

lemma snd_updatePowerUps:
  "snd (updatePowerUps t p pus) = filter (\<lambda>pu. \<not> expired t pu) pus"
  by (induction pus arbitrary: p) (simp_all add: split_def)

lemma maxSpeed_revertPowerUp:
  "maxSpeed (revertPowerUp pu p) =
     (if ptype pu = Some Speed then BASE_PLAYER_SPEED * SPRINT_MULTIPLIER else maxSpeed p)"
  by (simp add: revertPowerUp_def split: option.split ptype.split)

lemma radius_revertPowerUp:
  "radius (revertPowerUp pu p) = (if ptype pu = Some Giant then PLAYER_RADIUS else radius p)"
  by (simp add: revertPowerUp_def split: option.split ptype.split)

lemma maxSpeed_updatePowerUps:
  "maxSpeed (fst (updatePowerUps t p pus)) =
     (if \<exists>pu \<in> set pus. expired t pu \<and> ptype pu = Some Speed
      then BASE_PLAYER_SPEED * SPRINT_MULTIPLIER else maxSpeed p)"
proof (induction pus arbitrary: p)
  case Nil
  show ?case by simp
next
  case (Cons pu pus)
  show ?case
  proof (cases "expired t pu")
    case True
    then show ?thesis
      using Cons.IH [of "revertPowerUp pu p"] by (auto simp: maxSpeed_revertPowerUp)
  next
    case False
    then show ?thesis
      using Cons.IH [of p] by (auto simp: split_def Let_def)
  qed
qed

lemma radius_updatePowerUps:
  "radius (fst (updatePowerUps t p pus)) =
     (if \<exists>pu \<in> set pus. expired t pu \<and> ptype pu = Some Giant
      then PLAYER_RADIUS else radius p)"
proof (induction pus arbitrary: p)
  case Nil
  show ?case by simp
next
  case (Cons pu pus)
  show ?case
  proof (cases "expired t pu")
    case True
    then show ?thesis
      using Cons.IH [of "revertPowerUp pu p"] by (auto simp: radius_revertPowerUp)
  next
    case False
    then show ?thesis
      using Cons.IH [of p] by (auto simp: split_def Let_def)
  qed
qed

lemma pickup_keeps_started:
  assumes "pu \<in> set pus" and "truthy (startTime pu)"
  shows "pu \<in> set (snd (pickupPowerUps t p pus))"
  using assms
proof (induction pus arbitrary: p)
  case Nil
  then show ?case by simp
next
  case (Cons q qs)
  then show ?case by (auto simp: split_def Let_def)
qed

lemma length_pickupPowerUps: "length (snd (pickupPowerUps t p pus)) = length pus"
  by (induction pus arbitrary: p) (simp_all add: split_def Let_def)

lemma set_pickupPowerUps:
  assumes "q \<in> set (snd (pickupPowerUps t p pus))"
  shows "q \<in> set pus \<or> (\<exists>pu \<in> set pus. q = pu\<lparr> startTime := Some t \<rparr>)"
  using assms
proof (induction pus arbitrary: p)
  case Nil
  then show ?case by simp
next
  case (Cons pu pus)
  show ?case
  proof (cases "active pu \<and> \<not> truthy (startTime pu) \<and> touches p pu")
    case True
    with Cons.prems have "q = pu\<lparr> startTime := Some t \<rparr>
        \<or> q \<in> set (snd (pickupPowerUps t (fst (applyPowerUp t pu p)) pus))"
      by (auto simp: split_def Let_def applyPowerUp_def)
    then show ?thesis using Cons.IH by auto
  next
    case False
    with Cons.prems have "q = pu \<or> q \<in> set (snd (pickupPowerUps t p pus))"
      by (auto simp: split_def Let_def)
    then show ?thesis using Cons.IH by auto
  qed
qed

lemma length_powerUps_updateGame:
  assumes "length (powerUps s) \<le> 2"
  shows "length (powerUps (updateGame e s)) \<le> 2"
proof (cases "isPaused s")
  case True
  then show ?thesis using assms by (simp add: updateGame_def)
next
  case False
  let ?pk = "pickupPowerUps (now e) (movePlayer (keys s) (player s)) (powerUps s)"
  let ?kept = "snd (updatePowerUps (now e) (fst ?pk) (snd ?pk))"
  have "length ?kept \<le> length (snd ?pk)"
    by (simp add: snd_updatePowerUps)
  then have k: "length ?kept \<le> length (powerUps s)"
    by (simp add: length_pickupPowerUps)
  show ?thesis
    using k assms by (simp add: powerUps_updateGame [OF False] spawnPowerUp_def)
qed

lemma newPowerUp_fresh:
  assumes "randomOk e"
  shows "20 \<le> x (newPowerUp e) \<and> x (newPowerUp e) < CANVAS_WIDTH - 20
       \<and> 20 \<le> y (newPowerUp e) \<and> y (newPowerUp e) < CANVAS_HEIGHT - 20
       \<and> active (newPowerUp e)
       \<and> duration (newPowerUp e) = POWER_UP_DURATION
       \<and> startTime (newPowerUp e) = None"
  using assms by (simp add: newPowerUp_def randomOk_def)

subsection \<open>Invariants of the reachable states\<close>

lemma chargeKick_range:
  assumes "0 \<le> kp" and "kp \<le> MAX_KICK_POWER"
  shows "0 \<le> chargeKick c kp \<and> chargeKick c kp \<le> MAX_KICK_POWER"
  using assms by (simp add: chargeKick_def)

lemma reachable_kickPower:
  assumes "reachable s"
  shows "0 \<le> kickPower s \<and> kickPower s \<le> MAX_KICK_POWER"
  using assms
proof (induction rule: reachable.induct)
  case start
  show ?case by (simp add: initState_def)
next
  case (tick s e)
  then show ?case
    using chargeKick_range [of "kickPower s" "isCharging s"] by (simp add: kickPower_updateGame)
next
  case (keyDown s k)
  then show ?case by (cases k) (simp_all add: Let_def)
next
  case (keyUp s k)
  then show ?case by (cases k) simp_all
next
  case (pauseButton s)
  then show ?case by (simp add: togglePause_def)
next
  case (timer s)
  then show ?case by (simp add: timerTick_def)
next
  case (reset s)
  show ?case by (simp add: resetGame_def)
qed

lemma reachable_powerUps_cap:
  assumes "reachable s"
  shows "length (powerUps s) \<le> 2"
  using assms
proof (induction rule: reachable.induct)
  case start
  show ?case by (simp add: initState_def)
next
  case (tick s e)
  then show ?case by (simp add: length_powerUps_updateGame)
next
  case (keyDown s k)
  then show ?case by (cases k) (simp_all add: Let_def)
next
  case (keyUp s k)
  then show ?case by (cases k) simp_all
next
  case (pauseButton s)
  then show ?case by (simp add: togglePause_def)
next
  case (timer s)
  then show ?case by (simp add: timerTick_def)
next
  case (reset s)
  show ?case by (simp add: resetGame_def)
qed

lemma playerBuild_movePlayer: "playerBuild (movePlayer k p) = playerBuild p"
  by (simp add: playerBuild_def movePlayer_def clampToField_def integrate_def
      acceleratePlayer_def Let_def)

lemma playerBuild_applyPowerUp:
  assumes "playerBuild p"
  shows "playerBuild (fst (applyPowerUp t pu p))"
  using assms by (auto simp: playerBuild_def applyPowerUp_def split: option.split ptype.split)

lemma playerBuild_pickupPowerUps:
  assumes "playerBuild p"
  shows "playerBuild (fst (pickupPowerUps t p pus))"
  using assms
proof (induction pus arbitrary: p)
  case Nil
  then show ?case by simp
next
  case (Cons pu pus)
  show ?case
  proof (cases "active pu \<and> \<not> truthy (startTime pu) \<and> touches p pu")
    case True
    then show ?thesis
      using Cons.IH [OF playerBuild_applyPowerUp [OF Cons.prems, of t pu]]
      by (simp add: split_def Let_def)
  next
    case False
    then show ?thesis
      using Cons.IH [OF Cons.prems] by (auto simp: split_def Let_def)
  qed
qed

lemma playerBuild_revertPowerUp:
  assumes "playerBuild p"
  shows "playerBuild (revertPowerUp pu p)"
  using assms by (auto simp: playerBuild_def revertPowerUp_def split: option.split ptype.split)

lemma playerBuild_updatePowerUps:
  assumes "playerBuild p"
  shows "playerBuild (fst (updatePowerUps t p pus))"
  using assms
proof (induction pus arbitrary: p)
  case Nil
  then show ?case by simp
next
  case (Cons pu pus)
  show ?case
  proof (cases "expired t pu")
    case True
    then show ?thesis
      using Cons.IH [OF playerBuild_revertPowerUp [OF Cons.prems, of pu]] by simp
  next
    case False
    then show ?thesis
      using Cons.IH [OF Cons.prems] by (simp add: split_def Let_def)
  qed
qed

lemma aiBuild_moveAI: "aiBuild (moveAI b a) = aiBuild a"
  by (simp add: aiBuild_def moveAI_def clampToField_def integrate_def steerAI_def Let_def)

lemma stockBuild_updateGame:
  assumes "stockBuild s"
  shows "stockBuild (updateGame e s)"
proof (cases "isPaused s")
  case True
  then show ?thesis using assms by (simp add: updateGame_def)
next
  case False
  have "playerBuild (movePlayer (keys s) (player s))"
    using assms by (simp add: stockBuild_def playerBuild_movePlayer)
  then have "playerBuild (player (updateGame e s))"
    by (simp add: player_updateGame [OF False] playerBuild_updatePowerUps
        playerBuild_pickupPowerUps)
  moreover have "aiBuild (ai (updateGame e s))"
    using assms by (simp add: ai_updateGame [OF False] aiBuild_moveAI stockBuild_def)
  moreover have "radius (ball (updateGame e s)) = BALL_RADIUS"
    using assms by (simp add: radius_ball_updateGame stockBuild_def)
  ultimately show ?thesis by (simp add: stockBuild_def)
qed

lemma reachable_stockBuild:
  assumes "reachable s"
  shows "stockBuild s"
  using assms
proof (induction rule: reachable.induct)
  case start
  show ?case
    by (simp add: stockBuild_def playerBuild_def aiBuild_def initState_def initPlayer_def
        initAi_def initBall_def)
next
  case (tick s e)
  then show ?case by (simp add: stockBuild_updateGame)
next
  case (keyDown s k)
  then show ?case
    by (cases k) (simp_all add: Let_def stockBuild_def playerBuild_def)
next
  case (keyUp s k)
  then show ?case by (cases k) (simp_all add: stockBuild_def)
next
  case (pauseButton s)
  then show ?case by (simp add: togglePause_def stockBuild_def)
next
  case (timer s)
  then show ?case by (simp add: timerTick_def stockBuild_def)
next
  case (reset s)
  then show ?case
    by (simp add: resetGame_def stockBuild_def playerBuild_def aiBuild_def)
qed

subsection \<open>The example environments\<close>

lemma run_envs: "randomOk speedSpawnEnv" "randomOk pickEnv" "randomOk lateEnv"
  by (simp_all add: randomOk_def speedSpawnEnv_def pickEnv_def lateEnv_def)

lemma randomOk_giantSpawnEnv: "randomOk giantSpawnEnv"
  by (simp add: randomOk_def giantSpawnEnv_def)


lemma typeAt_giant: "typeAt \<lfloor>(7 / 10 :: real) * 3\<rfloor> = Some Giant"
proof -
  have "\<lfloor>(7 / 10 :: real) * 3\<rfloor> = 2" by (simp add: floor_eq_iff)
  then show ?thesis by (simp add: typeAt_def)
qed


lemma newPowerUp_giantSpawnEnv: "newPowerUp giantSpawnEnv = giantBoost"
  using typeAt_giant by (simp add: newPowerUp_def giantSpawnEnv_def giantBoost_def)


subsection \<open>Goals and the side walls\<close>

lemma x_wallBounce_moveBall:
  assumes "radius b = BALL_RADIUS"
  shows "BALL_RADIUS \<le> x (wallBounce (moveBall b))
       \<and> x (wallBounce (moveBall b)) \<le> CANVAS_WIDTH - BALL_RADIUS"
  using assms by (simp add: wallBounce_def bounceX_def bounceY_def moveBall_def Let_def)

text \<open>
  After the wall reflection the ball's x lies in \<open>[12, 788]\<close>; a kick and the AI's hit
  leave the position alone. So in a reachable state only the dribble's push-out can take
  the ball past x = 0 or x = 800: a tick without it never changes the score.
\<close>

lemma no_goal_without_dribble:
  assumes "reachable s" and "\<not> isPaused s"
    and "\<not> checkCollision (movePlayer (keys s) (player s)) (wallBounce (moveBall (ball s)))
         \<or> space (keys s)"
  shows "score (updateGame e s) = score s"
proof -
  let ?b0 = "wallBounce (moveBall (ball s))"
  have "radius (ball s) = BALL_RADIUS"
    using reachable_stockBuild [OF assms(1)] by (simp add: stockBuild_def)
  then have b0: "BALL_RADIUS \<le> x ?b0 \<and> x ?b0 \<le> CANVAS_WIDTH - BALL_RADIUS"
    by (rule x_wallBounce_moveBall)
  have "x (ball (moveBodies s)) = x ?b0"
    using assms(3)
    by (auto simp: ball_moveBodies x_aiBallCollision playerBallCollision_def x_kickBall)
  with b0 have "goalCheck (moveBodies s) = moveBodies s"
    by (simp add: goalCheck_def)
  then show ?thesis
    by (simp add: score_updateGame [OF assms(2)] score_moveBodies)
qed

lemma ballExitsLeft_bodies:
  "movePlayer (keys ballExitsLeft) (player ballExitsLeft) = initPlayer"
  "wallBounce (moveBall (ball ballExitsLeft)) = initBall\<lparr> x := 12, vx := 4.704 \<rparr>"
  "moveAI (ball ballExitsLeft) (ai ballExitsLeft) = initAi\<lparr> x := 598.4, vx := -1.6 \<rparr>"
    apply (simp add: ballExitsLeft_def initState_def initPlayer_def initKeys_def movePlayer_def
        acceleratePlayer_def integrate_def clampToField_def targetVx_def targetVy_def
        currentSpeed_def Let_def)
   apply (simp add: ballExitsLeft_def initState_def initBall_def moveBall_def wallBounce_def
        bounceX_def bounceY_def Let_def)
  apply (simp add: ballExitsLeft_def initState_def initBall_def initAi_def moveAI_def steerAI_def
        integrate_def clampToField_def Let_def sqrt_354025)
  done

lemma ballExitsLeft_no_collision:
  "\<not> checkCollision initPlayer (initBall\<lparr> x := 12, vx := 4.704 \<rparr>)"
  "\<not> checkCollision (initAi\<lparr> x := 598.4, vx := -1.6 \<rparr>) (initBall\<lparr> x := 12, vx := 4.704 \<rparr>)"
  by (simp_all add: checkCollision_def initPlayer_def initAi_def initBall_def Let_def sqrt_less_iff_sq)

lemma cornered_bodies:
  "movePlayer (keys cornered) (player cornered) = initPlayer\<lparr> x := 20 \<rparr>"
  "wallBounce (moveBall (ball cornered)) = initBall\<lparr> x := 12, vx := 196 / 125 \<rparr>"
  "moveAI (ball cornered) (ai cornered) = initAi\<lparr> x := 2992 / 5, vx := - (8 / 5) \<rparr>"
    apply (simp add: cornered_def initState_def initPlayer_def initKeys_def movePlayer_def
        acceleratePlayer_def integrate_def clampToField_def targetVx_def targetVy_def
        currentSpeed_def Let_def)
   apply (simp add: cornered_def initState_def initBall_def moveBall_def wallBounce_def
        bounceX_def bounceY_def Let_def)
  apply (simp add: cornered_def initState_def initBall_def initAi_def moveAI_def steerAI_def
        integrate_def clampToField_def Let_def sqrt_344569)
  done

lemma cornered_dribble:
  "checkCollision (initPlayer\<lparr> x := 20 \<rparr>) (initBall\<lparr> x := 12, vx := 196 / 125 \<rparr>)"
  "dribbleBall (initPlayer\<lparr> x := 20 \<rparr>) (initBall\<lparr> x := 12, vx := 196 / 125 \<rparr>)
     = initBall\<lparr> x := -12, vx := 98 / 125 \<rparr>"
   apply (simp add: checkCollision_def initPlayer_def initBall_def Let_def sqrt_less_iff_sq)
  apply (simp add: dribbleBall_def initPlayer_def initBall_def Let_def atan2_def sqrt_64)
  done

lemma cornered_ai_far:
  "\<not> checkCollision (initAi\<lparr> x := 2992 / 5, vx := - (8 / 5) \<rparr>)
       (initBall\<lparr> x := -12, vx := 98 / 125 \<rparr>)"
  by (simp add: checkCollision_def initAi_def initBall_def Let_def sqrt_less_iff_sq)

text \<open>
  With the player at the left edge and the ball between player and wall, one tick runs
  the reflection (the ball had reached x = 11 < 12), then the dribble pushes the ball to
  x = -12, then the goal test fires: both on the same tick.
\<close>

lemma bounce_and_goal_on_one_tick:
  "x (moveBall (ball cornered)) < radius (moveBall (ball cornered))
   \<and> x (wallBounce (moveBall (ball cornered))) = 12
   \<and> score (updateGame quietEnv cornered) = \<lparr> playerGoals = 0, aiGoals = 1 \<rparr>
   \<and> x (ball (updateGame quietEnv cornered)) = 400"
proof -
  have u: "\<not> isPaused cornered" "\<not> space (keys cornered)"
    "score cornered = \<lparr> playerGoals = 0, aiGoals = 0 \<rparr>"
    by (simp_all add: cornered_def initState_def initKeys_def)
  have m: "x (moveBall (ball cornered)) = 11" "radius (moveBall (ball cornered)) = 12"
    by (simp_all add: cornered_def initState_def initBall_def moveBall_def Let_def)
  have b: "ball (moveBodies cornered) = initBall\<lparr> x := -12, vx := 98 / 125 \<rparr>"
    using cornered_ai_far cornered_dribble(1) u(2)
    by (simp add: ball_moveBodies cornered_bodies playerBallCollision_def aiBallCollision_def
        cornered_dribble(2))
  have neg: "x (ball (moveBodies cornered)) < 0"
    by (simp add: b initBall_def)
  have sc: "score (goalCheck (moveBodies cornered)) = \<lparr> playerGoals = 0, aiGoals = 1 \<rparr>"
    using neg by (simp add: goalCheck_def score_moveBodies u(3))
  have bx: "x (ball (goalCheck (moveBodies cornered))) = 400"
    using neg by (simp add: goalCheck_def)
  show ?thesis
    by (simp add: m cornered_bodies(2) initBall_def score_updateGame [OF u(1)]
        ball_updateGame [OF u(1)] sc bx)
qed

text \<open>
  Claim C1, evaluated on the code. The ball is at x = 5 with horizontal velocity -6, the
  bodies at their initial places, no key held. Motion integration puts the ball at x = -1,
  below 0. The wall reflection of lines 422-426 runs first and puts it back at x = 12 with
  the velocity reversed, so the goal test of line 466 finds x = 12: the score stays (0,0)
  and the ball is not sent to the centre.
\<close>

theorem goal_lost_to_wall_bounce:
  "x (moveBall (ball ballExitsLeft)) = -1
   \<and> score (updateGame quietEnv ballExitsLeft) = \<lparr> playerGoals = 0, aiGoals = 0 \<rparr>
   \<and> x (ball (updateGame quietEnv ballExitsLeft)) = 12
   \<and> y (ball (updateGame quietEnv ballExitsLeft)) = 300
   \<and> vx (ball (updateGame quietEnv ballExitsLeft)) = 4.704
   \<and> vy (ball (updateGame quietEnv ballExitsLeft)) = 0"
proof -
  have u: "\<not> isPaused ballExitsLeft"
    by (simp add: ballExitsLeft_def initState_def)
  have b: "ball (moveBodies ballExitsLeft) = initBall\<lparr> x := 12, vx := 4.704 \<rparr>"
    using ballExitsLeft_no_collision
    by (simp add: ball_moveBodies ballExitsLeft_bodies playerBallCollision_def
        aiBallCollision_def)
  have sc: "score (moveBodies ballExitsLeft) = \<lparr> playerGoals = 0, aiGoals = 0 \<rparr>"
    by (simp add: moveBodies_def Let_def ballExitsLeft_def initState_def)
  have g: "goalCheck (moveBodies ballExitsLeft) = moveBodies ballExitsLeft"
    by (simp add: goalCheck_def b initBall_def)
  have m: "x (moveBall (ball ballExitsLeft)) = -1"
    by (simp add: ballExitsLeft_def initState_def initBall_def moveBall_def Let_def)
  show ?thesis
    by (simp add: m ball_updateGame [OF u] score_updateGame [OF u] g b sc initBall_def)
qed

subsection \<open>Kicks\<close>

lemma ballSpeed_kickBall:
  "ballSpeed (kickBall kp p b) = \<bar>if kp \<noteq> 0 then kp else 10\<bar>"
proof -
  let ?t = "atan2 (y b - y p) (x b - x p)"
  let ?w = "if kp \<noteq> 0 then kp else (10::real)"
  have "(cos ?t * ?w)\<^sup>2 + (sin ?t * ?w)\<^sup>2 = ((cos ?t)\<^sup>2 + (sin ?t)\<^sup>2) * ?w\<^sup>2"
    by (simp only: power_mult_distrib distrib_right)
  also have "\<dots> = ?w\<^sup>2" by simp
  finally have "sqrt ((cos ?t * ?w)\<^sup>2 + (sin ?t * ?w)\<^sup>2) = \<bar>?w\<bar>"
    by (simp only: real_sqrt_abs)
  then show ?thesis by (simp add: ballSpeed_def kickBall_def Let_def)
qed

text \<open>
  Claim C2, as amended. On a tick in which the player overlaps the ball and the kick button
  is held, the player-ball step sets the ball's velocity (the old velocity plays no part)
  to the unit vector from player to ball, (1,0) when the two centres coincide, times the
  power: the kick power the tick started with, or 10 when that is zero. The magnitude is
  that power; it is above 0 and at most 20, and not at least 10 in general.
\<close>

theorem kick_sets_velocity:
  assumes "reachable s" and "space k" and "checkCollision p b"
  shows "let power = (if kickPower s = 0 then 10 else kickPower s);
             d = sqrt ((x b - x p)\<^sup>2 + (y b - y p)\<^sup>2);
             b' = playerBallCollision k (kickPower s) p b
         in (0 < d \<longrightarrow> vx b' = (x b - x p) / d * power \<and> vy b' = (y b - y p) / d * power)
          \<and> (d = 0 \<longrightarrow> vx b' = power \<and> vy b' = 0)
          \<and> ballSpeed b' = power
          \<and> 0 < power \<and> power \<le> 20"
proof -
  let ?kp = "kickPower s"
  let ?power = "if ?kp = 0 then 10 else ?kp"
  let ?d = "sqrt ((x b - x p)\<^sup>2 + (y b - y p)\<^sup>2)"
  have kb: "playerBallCollision k ?kp p b = kickBall ?kp p b"
    using assms(2,3) by (simp add: playerBallCollision_def)
  have rng: "0 \<le> ?kp" "?kp \<le> 20"
    using reachable_kickPower [OF assms(1)] by simp_all
  then have pw: "0 < ?power" "?power \<le> 20" by auto
  have far: "vx (kickBall ?kp p b) = (x b - x p) / ?d * ?power
       \<and> vy (kickBall ?kp p b) = (y b - y p) / ?d * ?power" if "0 < ?d"
  proof -
    from that have "x b - x p \<noteq> 0 \<or> y b - y p \<noteq> 0" by auto
    then show ?thesis
      by (simp add: kickBall_def Let_def cos_atan2 sin_atan2)
  qed
  have near: "vx (kickBall ?kp p b) = ?power \<and> vy (kickBall ?kp p b) = 0" if "?d = 0"
  proof -
    from that have "x b - x p = 0" "y b - y p = 0"
      by (simp_all add: real_sqrt_eq_zero_cancel_iff sum_power2_eq_zero_iff)
    then show ?thesis
      by (simp add: kickBall_def Let_def atan2_origin)
  qed
  have sp: "ballSpeed (kickBall ?kp p b) = ?power"
    using rng by (simp add: ballSpeed_kickBall)
  show ?thesis
    unfolding Let_def kb using far near sp pw by blast
qed

theorem kick_sets_velocity_witness:
  "reachable initState \<and> space kickKeys \<and> checkCollision initPlayer ballAtFoot
   \<and> vx (playerBallCollision kickKeys (kickPower initState) initPlayer ballAtFoot) = 10
   \<and> vy (playerBallCollision kickKeys (kickPower initState) initPlayer ballAtFoot) = 0
   \<and> ballSpeed (playerBallCollision kickKeys (kickPower initState) initPlayer ballAtFoot) = 10"
proof -
  have c: "checkCollision initPlayer ballAtFoot"
    by (simp add: checkCollision_def initPlayer_def ballAtFoot_def initBall_def Let_def
        sqrt_less_iff_sq)
  have k: "space kickKeys" by (simp add: kickKeys_def)
  have d: "sqrt ((x ballAtFoot - x initPlayer)\<^sup>2 + (y ballAtFoot - y initPlayer)\<^sup>2) = 20"
    by (simp add: initPlayer_def ballAtFoot_def initBall_def sqrt_400)
  have kp: "kickPower initState = 0" by (simp add: initState_def)
  have dx: "x ballAtFoot - x initPlayer = 20" "y ballAtFoot - y initPlayer = 0"
    by (simp_all add: initPlayer_def ballAtFoot_def initBall_def)
  show ?thesis
    using kick_sets_velocity [OF reachable.start k c] c k reachable.start
    by (simp add: Let_def d kp dx)
qed

lemma weakKick_bodies:
  "movePlayer (keys weakKick) (player weakKick) = initPlayer"
  "wallBounce (moveBall (ball weakKick)) = ballAtFoot"
  "moveAI (ball weakKick) (ai weakKick) = initAi\<lparr> x := 598.4, vx := -1.6 \<rparr>"
    apply (simp add: weakKick_def initState_def initPlayer_def initKeys_def kickKeys_def
        movePlayer_def acceleratePlayer_def integrate_def clampToField_def targetVx_def
        targetVy_def currentSpeed_def Let_def)
   apply (simp add: weakKick_def initState_def initBall_def ballAtFoot_def moveBall_def
        wallBounce_def bounceX_def bounceY_def Let_def)
  apply (simp add: weakKick_def initState_def initBall_def ballAtFoot_def initAi_def moveAI_def
        steerAI_def integrate_def clampToField_def Let_def sqrt_144400)
  done

lemma weakKick_kick:
  "kickBall (1 / 2) initPlayer ballAtFoot = ballAtFoot\<lparr> vx := 1 / 2 \<rparr>"
  by (simp add: kickBall_def Let_def initPlayer_def ballAtFoot_def initBall_def atan2_def)

lemma weakKick_ai_far:
  "\<not> checkCollision (initAi\<lparr> x := 598.4, vx := -1.6 \<rparr>) (ballAtFoot\<lparr> vx := 1 / 2 \<rparr>)"
  by (simp add: checkCollision_def initAi_def ballAtFoot_def initBall_def Let_def
      sqrt_less_iff_sq)

text \<open>
  Claim C2 as stated fails: one tick after the kick button went down the charge is 0.5,
  and a kick on that tick sends the ball off at speed 0.5, below 10.
\<close>

theorem weak_kick_below_minimum:
  "\<not> isPaused weakKick \<and> space (keys weakKick)
   \<and> checkCollision (movePlayer (keys weakKick) (player weakKick))
        (wallBounce (moveBall (ball weakKick)))
   \<and> ballSpeed (ball (updateGame quietEnv weakKick)) = 1 / 2
   \<and> ballSpeed (ball (updateGame quietEnv weakKick)) < 10"
proof -
  have u: "\<not> isPaused weakKick" "space (keys weakKick)" "kickPower weakKick = 1 / 2"
    by (simp_all add: weakKick_def initState_def kickKeys_def)
  have c: "checkCollision initPlayer ballAtFoot"
    by (simp add: checkCollision_def initPlayer_def ballAtFoot_def initBall_def Let_def
        sqrt_less_iff_sq)
  have b: "ball (moveBodies weakKick) = ballAtFoot\<lparr> vx := 1 / 2 \<rparr>"
    using weakKick_ai_far c u(1,2)
    by (simp add: ball_moveBodies weakKick_bodies playerBallCollision_def aiBallCollision_def
        u(3) weakKick_kick)
  have g: "ball (goalCheck (moveBodies weakKick)) = ballAtFoot\<lparr> vx := 1 / 2 \<rparr>"
    by (simp add: goalCheck_def b ballAtFoot_def initBall_def)
  have sp: "ballSpeed (ballAtFoot\<lparr> vx := 1 / 2 \<rparr>) = 1 / 2"
    by (simp add: ballSpeed_def ballAtFoot_def initBall_def power2_eq_square sqrt_quarter)
  show ?thesis
    using u(1,2) c by (simp add: ball_updateGame g sp weakKick_bodies)
qed

subsection \<open>Rounding to binary64\<close>






























subsection \<open>Ball friction\<close>

lemma vx_wallBounce_moveBall:
  "vx (wallBounce (moveBall b)) = vx b * 0.98 \<or> vx (wallBounce (moveBall b)) = vx b * 0.98 * (- 0.8)"
  by (simp add: wallBounce_def bounceX_def bounceY_def moveBall_def Let_def)

lemma vy_wallBounce_moveBall:
  "vy (wallBounce (moveBall b)) = vy b * 0.98 \<or> vy (wallBounce (moveBall b)) = vy b * 0.98 * (- 0.8)"
  by (simp add: wallBounce_def bounceX_def bounceY_def moveBall_def Let_def)

lemma shrink_sq:
  fixes v w :: real
  assumes "w = v * 0.98 \<or> w = v * 0.98 * (- 0.8)"
  shows "w\<^sup>2 \<le> 0.9604 * v\<^sup>2"
proof -
  from assms show ?thesis
  proof
    assume w: "w = v * 0.98"
    show ?thesis unfolding w by (simp add: power2_eq_square)
  next
    assume w: "w = v * 0.98 * (- 0.8)"
    show ?thesis unfolding w using zero_le_square [of v] by (simp add: power2_eq_square)
  qed
qed

lemma wallBounce_moveBall_slower:
  assumes "vx b \<noteq> 0 \<or> vy b \<noteq> 0"
  shows "ballSpeed (wallBounce (moveBall b)) < ballSpeed b"
proof -
  let ?c = "wallBounce (moveBall b)"
  have a: "(vx ?c)\<^sup>2 \<le> 0.9604 * (vx b)\<^sup>2"
    by (rule shrink_sq [OF vx_wallBounce_moveBall])
  have c: "(vy ?c)\<^sup>2 \<le> 0.9604 * (vy b)\<^sup>2"
    by (rule shrink_sq [OF vy_wallBounce_moveBall])
  have pos: "0 < (vx b)\<^sup>2 + (vy b)\<^sup>2"
    using assms by (auto simp: sum_power2_gt_zero_iff)
  have "(vx ?c)\<^sup>2 + (vy ?c)\<^sup>2 \<le> 0.9604 * ((vx b)\<^sup>2 + (vy b)\<^sup>2)"
    using a c by simp
  also have "\<dots> < (vx b)\<^sup>2 + (vy b)\<^sup>2"
    using pos by simp
  finally show ?thesis
    by (simp add: ballSpeed_def)
qed

lemma ballSpeed_goalCheck: "ballSpeed (ball (goalCheck s)) \<le> ballSpeed (ball s)"
  by (simp add: goalCheck_def ballSpeed_def)

text \<open>
  With exact products (the tick over the reals): on a tick that runs and on which neither
  the player nor the AI overlaps the ball after the motion step, the ball's speed after
  the tick is strictly below its speed before the tick whenever the velocity is not zero.
\<close>

lemma ball_slows_exact:
  assumes "\<not> isPaused s"
    and "\<not> checkCollision (movePlayer (keys s) (player s)) (wallBounce (moveBall (ball s)))"
    and "\<not> checkCollision (moveAI (ball s) (ai s)) (wallBounce (moveBall (ball s)))"
    and "vx (ball s) \<noteq> 0 \<or> vy (ball s) \<noteq> 0"
  shows "ballSpeed (ball (updateGame e s)) < ballSpeed (ball s)"
proof -
  let ?b0 = "wallBounce (moveBall (ball s))"
  have "ball (moveBodies s) = ?b0"
    using assms(2,3) by (simp add: ball_moveBodies playerBallCollision_def aiBallCollision_def)
  then have "ballSpeed (ball (updateGame e s)) \<le> ballSpeed ?b0"
    using ballSpeed_goalCheck [of "moveBodies s"] by (simp add: ball_updateGame [OF assms(1)])
  also have "\<dots> < ballSpeed (ball s)"
    by (rule wallBounce_moveBall_slower [OF assms(4)])
  finally show ?thesis .
qed

lemma ball_slows_exact_example:
  "\<not> isPaused rollingBall
   \<and> \<not> checkCollision (movePlayer (keys rollingBall) (player rollingBall))
          (wallBounce (moveBall (ball rollingBall)))
   \<and> \<not> checkCollision (moveAI (ball rollingBall) (ai rollingBall))
          (wallBounce (moveBall (ball rollingBall)))
   \<and> vx (ball rollingBall) \<noteq> 0
   \<and> ballSpeed (ball (updateGame quietEnv rollingBall)) < ballSpeed (ball rollingBall)"
proof -
  have p: "movePlayer (keys rollingBall) (player rollingBall) = initPlayer"
    by (simp add: rollingBall_def initState_def initPlayer_def initKeys_def movePlayer_def
        acceleratePlayer_def integrate_def clampToField_def targetVx_def targetVy_def
        currentSpeed_def Let_def)
  have b: "wallBounce (moveBall (ball rollingBall)) = initBall\<lparr> x := 401, vx := 0.98 \<rparr>"
    by (simp add: rollingBall_def initState_def initBall_def moveBall_def wallBounce_def
        bounceX_def bounceY_def Let_def)
  have a: "moveAI (ball rollingBall) (ai rollingBall) = initAi\<lparr> x := 598.4, vx := -1.6 \<rparr>"
    by (simp add: rollingBall_def initState_def initBall_def initAi_def moveAI_def steerAI_def
        integrate_def clampToField_def Let_def sqrt_40000)
  have c1: "\<not> checkCollision initPlayer (initBall\<lparr> x := 401, vx := 0.98 \<rparr>)"
    by (simp add: checkCollision_def initPlayer_def initBall_def Let_def sqrt_less_iff_sq)
  have c2: "\<not> checkCollision (initAi\<lparr> x := 598.4, vx := -1.6 \<rparr>) (initBall\<lparr> x := 401, vx := 0.98 \<rparr>)"
    by (simp add: checkCollision_def initAi_def initBall_def Let_def sqrt_less_iff_sq)
  have u: "\<not> isPaused rollingBall" "vx (ball rollingBall) \<noteq> 0"
    by (simp_all add: rollingBall_def initState_def)
  have c: "\<not> checkCollision (movePlayer (keys rollingBall) (player rollingBall))
          (wallBounce (moveBall (ball rollingBall)))"
     "\<not> checkCollision (moveAI (ball rollingBall) (ai rollingBall))
          (wallBounce (moveBall (ball rollingBall)))"
    unfolding p a b by (rule c1, rule c2)
  show ?thesis
    using ball_slows_exact [of rollingBall quietEnv, OF u(1) c(1) c(2)] u c by simp
qed











subsection \<open>Clamping to the field\<close>

text \<open>
  The clamp of lines 398-399 and 413-414 keeps a body of radius at most 300 (half the
  field's height) inside the field; the AI's radius is 20 in every reachable state.
\<close>

lemma clampToField_bounds:
  assumes "radius p \<le> CANVAS_HEIGHT / 2"
  shows "radius (clampToField p) \<le> x (clampToField p)
       \<and> x (clampToField p) \<le> CANVAS_WIDTH - radius (clampToField p)
       \<and> radius (clampToField p) \<le> y (clampToField p)
       \<and> y (clampToField p) \<le> CANVAS_HEIGHT - radius (clampToField p)"
  using assms by (simp add: clampToField_def Let_def)

lemma movePlayer_bounds:
  assumes "radius p \<le> CANVAS_HEIGHT / 2"
  shows "radius (movePlayer k p) \<le> x (movePlayer k p)
       \<and> x (movePlayer k p) \<le> CANVAS_WIDTH - radius (movePlayer k p)
       \<and> radius (movePlayer k p) \<le> y (movePlayer k p)
       \<and> y (movePlayer k p) \<le> CANVAS_HEIGHT - radius (movePlayer k p)"
proof -
  have "radius (integrate (acceleratePlayer k p)) \<le> CANVAS_HEIGHT / 2"
    using assms by (simp add: integrate_def acceleratePlayer_def Let_def)
  then show ?thesis
    unfolding movePlayer_def by (rule clampToField_bounds)
qed

lemma moveAI_bounds:
  assumes "reachable s"
  shows "radius (moveAI (ball s) (ai s)) \<le> x (moveAI (ball s) (ai s))
       \<and> x (moveAI (ball s) (ai s)) \<le> CANVAS_WIDTH - radius (moveAI (ball s) (ai s))
       \<and> radius (moveAI (ball s) (ai s)) \<le> y (moveAI (ball s) (ai s))
       \<and> y (moveAI (ball s) (ai s)) \<le> CANVAS_HEIGHT - radius (moveAI (ball s) (ai s))"
proof -
  have "radius (ai s) = PLAYER_RADIUS"
    using reachable_stockBuild [OF assms] by (simp add: stockBuild_def aiBuild_def)
  then have "radius (integrate (steerAI (ball s) (ai s))) \<le> CANVAS_HEIGHT / 2"
    by (simp add: integrate_def steerAI_def Let_def)
  then show ?thesis
    unfolding moveAI_def by (rule clampToField_bounds)
qed

lemma movePlayer_grown:
  assumes "20 \<le> r" and "r \<le> 300"
  shows "movePlayer initKeys (initPlayer\<lparr> radius := r \<rparr>)
           = initPlayer\<lparr> x := max r 200, radius := r \<rparr>"
    and "movePlayer initKeys (initPlayer\<lparr> x := max r 200, radius := r \<rparr>)
           = initPlayer\<lparr> x := max r 200, radius := r \<rparr>"
  using assms
  by (simp_all add: initPlayer_def initKeys_def movePlayer_def acceleratePlayer_def
      integrate_def clampToField_def targetVx_def targetVy_def currentSpeed_def Let_def)

lemma grown_view:
  "player (togglePause (grown r)) = initPlayer\<lparr> radius := r \<rparr>
   \<and> powerUps (togglePause (grown r)) = []
   \<and> keys (togglePause (grown r)) = initKeys
   \<and> \<not> isPaused (togglePause (grown r))"
  by (simp add: grown_def togglePause_def initState_def)

lemma grown_spawn_view:
  assumes "20 \<le> r" and "r \<le> 300"
  shows "player (updateGame giantSpawnEnv (togglePause (grown r)))
           = initPlayer\<lparr> x := max r 200, radius := r \<rparr>
       \<and> powerUps (updateGame giantSpawnEnv (togglePause (grown r))) = [giantBoost]
       \<and> keys (updateGame giantSpawnEnv (togglePause (grown r))) = initKeys
       \<and> \<not> isPaused (updateGame giantSpawnEnv (togglePause (grown r)))"
  using grown_view [of r]
  by (simp add: player_updateGame powerUps_updateGame keys_updateGame isPaused_updateGame
      movePlayer_grown [OF assms] spawnPowerUp_def newPowerUp_giantSpawnEnv)
    (simp add: giantSpawnEnv_def)

lemma touches_giantBoost:
  assumes "20 \<le> r"
  shows "touches (initPlayer\<lparr> x := max r 200, radius := r \<rparr>) giantBoost"
  using assms by (simp add: touches_def giantBoost_def initPlayer_def Let_def)

lemma grown_pickup_view:
  assumes "20 \<le> r" and "r \<le> 300"
  shows "player (updateGame pickEnv (updateGame giantSpawnEnv (togglePause (grown r))))
           = initPlayer\<lparr> x := max r 200, radius := r * 1.5 \<rparr>
       \<and> keys (updateGame pickEnv (updateGame giantSpawnEnv (togglePause (grown r)))) = initKeys"
  using grown_spawn_view [OF assms] touches_giantBoost [OF assms(1)]
  by (simp add: player_updateGame keys_updateGame movePlayer_grown [OF assms])
    (simp add: giantBoost_def truthy_def applyPowerUp_def expired_def pickEnv_def)

lemma resetGame_to_grown:
  assumes "aiBuild (ai s)" and "radius (ball s) = BALL_RADIUS" and "keys s = initKeys"
    and "player s = initPlayer\<lparr> x := a, radius := r \<rparr>"
  shows "resetGame s = grown r"
proof -
  have ai: "(ai s)\<lparr> x := (CANVAS_WIDTH / 4) * 3, y := CANVAS_HEIGHT / 2, vx := 0, vy := 0,
       direction := -1 \<rparr> = initAi"
    using assms(1) by (cases "ai s") (simp add: aiBuild_def initAi_def)
  have ball: "(ball s)\<lparr> x := CANVAS_WIDTH / 2, y := CANVAS_HEIGHT / 2, vx := 0, vy := 0,
       spin := 0, rotation := 0 \<rparr> = initBall"
    using assms(2) by (cases "ball s") (simp add: initBall_def)
  have pl: "(player s)\<lparr> x := CANVAS_WIDTH / 4, y := CANVAS_HEIGHT / 2, vx := 0, vy := 0,
       direction := 1 \<rparr> = initPlayer\<lparr> radius := r \<rparr>"
    by (simp add: assms(4) initPlayer_def)
  show ?thesis
    unfolding resetGame_def ai ball pl
    using assms(3) by (cases s) (simp add: grown_def initState_def)
qed

text \<open>
  One round of growth: resume, a tick that spawns a giant power-up on the player, a tick
  that picks it up, then the Reset button. \<^verbatim>\<open>resetGame\<close> empties the power-up list but
  leaves \<^verbatim>\<open>player.radius\<close> as it is, so no expiry ever restores it.
\<close>

lemma giant_cycle:
  assumes "reachable (grown r)" and "20 \<le> r" and "r \<le> 300"
  shows "reachable (grown (r * 1.5))"
proof -
  let ?c2 = "updateGame pickEnv (updateGame giantSpawnEnv (togglePause (grown r)))"
  have r2: "reachable ?c2"
    by (intro reachable.tick reachable.pauseButton assms(1) run_envs randomOk_giantSpawnEnv)
  have sb: "stockBuild ?c2" by (rule reachable_stockBuild [OF r2])
  have "resetGame ?c2 = grown (r * 1.5)"
  proof (rule resetGame_to_grown)
    show "aiBuild (ai ?c2)" using sb by (simp add: stockBuild_def)
    show "radius (ball ?c2) = BALL_RADIUS" using sb by (simp add: stockBuild_def)
    show "keys ?c2 = initKeys" using grown_pickup_view [OF assms(2,3)] by simp
    show "player ?c2 = initPlayer\<lparr> x := max r 200, radius := r * 1.5 \<rparr>"
      using grown_pickup_view [OF assms(2,3)] by simp
  qed
  then show ?thesis
    using reachable.reset [OF r2] by simp
qed

lemma reachable_giantState: "reachable giantState"
proof -
  have "grown 20 = initState"
    by (simp add: grown_def initState_def initPlayer_def)
  then have "reachable (grown 20)" by (simp add: reachable.start)
  then have "reachable (grown 30)" using giant_cycle [of 20] by simp
  then have "reachable (grown 45)" using giant_cycle [of 30] by simp
  then have "reachable (grown (135 / 2))" using giant_cycle [of 45] by simp
  then have "reachable (grown (405 / 4))" using giant_cycle [of "135 / 2"] by simp
  then have "reachable (grown (1215 / 8))" using giant_cycle [of "405 / 4"] by simp
  then have "reachable (grown (3645 / 16))" using giant_cycle [of "1215 / 8"] by simp
  then have "reachable (grown (10935 / 32))" using giant_cycle [of "3645 / 16"] by simp
  then show ?thesis
    unfolding giantState_def by (rule reachable.pauseButton)
qed

text \<open>
  Claim C4, evaluated on the code. After seven such rounds the player's radius is
  20 * 1.5^7 = 341.71875, more than half the field's height. The clamp of the next tick
  then puts the player at y = 341.71875, above height - radius = 258.28125: the player
  is not within the bounds the claim states.
\<close>

theorem clamp_fails_for_giant_player:
  "reachable giantState
   \<and> \<not> isPaused giantState
   \<and> radius (player (updateGame quietEnv giantState)) = 341.71875
   \<and> y (player (updateGame quietEnv giantState)) = 341.71875
   \<and> \<not> y (player (updateGame quietEnv giantState))
         \<le> CANVAS_HEIGHT - radius (player (updateGame quietEnv giantState))"
proof -
  have v: "player giantState = initPlayer\<lparr> radius := 10935 / 32 \<rparr>" "powerUps giantState = []"
    "keys giantState = initKeys" "\<not> isPaused giantState"
    using grown_view [of "10935 / 32"] by (simp_all add: giantState_def)
  have m: "movePlayer initKeys (initPlayer\<lparr> radius := 10935 / 32 \<rparr>)
      = initPlayer\<lparr> x := 10935 / 32, y := 10935 / 32, radius := 10935 / 32 \<rparr>"
    by (simp add: initPlayer_def initKeys_def movePlayer_def acceleratePlayer_def
      integrate_def clampToField_def targetVx_def targetVy_def currentSpeed_def Let_def)
  have p: "player (updateGame quietEnv giantState)
      = initPlayer\<lparr> x := 10935 / 32, y := 10935 / 32, radius := 10935 / 32 \<rparr>"
    by (simp add: player_updateGame v m)
  show ?thesis
    using reachable_giantState v(4) by (simp add: p)
qed

subsection \<open>Player speed\<close>























subsection \<open>Power-up expiry\<close>

text \<open>
  Claim C6. On a tick that runs, a power-up of the list that is active, carries an
  activation timestamp (one the code's truthiness test sees: not 0) and has been applied
  for at least its duration is removed from the list, and the attribute of its type is
  set to the base value outright: maxSpeed to 7.5 for a speed power-up, radius to 20 for a
  giant one, whatever the attribute was before (however many power-ups had multiplied
  it).
\<close>

theorem expiry_resets_to_base:
  assumes "\<not> isPaused s"
    and "pu \<in> set (powerUps s)"
    and "active pu"
    and "startTime pu = Some st" and "st \<noteq> 0"
    and "now e - st \<ge> duration pu"
  shows "pu \<notin> set (powerUps (updateGame e s))
       \<and> (ptype pu = Some Speed \<longrightarrow>
            maxSpeed (player (updateGame e s)) = BASE_PLAYER_SPEED * SPRINT_MULTIPLIER)
       \<and> (ptype pu = Some Giant \<longrightarrow> radius (player (updateGame e s)) = PLAYER_RADIUS)"
proof -
  let ?p1 = "movePlayer (keys s) (player s)"
  let ?pk = "pickupPowerUps (now e) ?p1 (powerUps s)"
  have tr: "truthy (startTime pu)" using assms(4,5) by (simp add: truthy_def)
  have ex: "expired (now e) pu" using assms(3,4,6) tr by (simp add: expired_def)
  have mem: "pu \<in> set (snd ?pk)" by (rule pickup_keeps_started [OF assms(2) tr])
  have new: "pu \<noteq> newPowerUp e" using assms(4) by (auto simp: newPowerUp_def)
  have gone: "pu \<notin> set (powerUps (updateGame e s))"
    using ex new by (auto simp: powerUps_updateGame [OF assms(1)] snd_updatePowerUps spawnPowerUp_def)
  have sp: "maxSpeed (player (updateGame e s)) = BASE_PLAYER_SPEED * SPRINT_MULTIPLIER"
    if "ptype pu = Some Speed"
    using that ex mem
    by (auto simp only: player_updateGame [OF assms(1)] maxSpeed_updatePowerUps split: if_splits)
  have gi: "radius (player (updateGame e s)) = PLAYER_RADIUS" if "ptype pu = Some Giant"
    using that ex mem
    by (auto simp only: player_updateGame [OF assms(1)] radius_updatePowerUps split: if_splits)
  from gone sp gi show ?thesis by blast
qed

theorem expiry_resets_to_base_witness:
  "\<not> isPaused boostedState
   \<and> oldSpeedBoost \<in> set (powerUps boostedState)
   \<and> active oldSpeedBoost
   \<and> startTime oldSpeedBoost = Some 1000
   \<and> now lateEnv - 1000 \<ge> duration oldSpeedBoost
   \<and> ptype oldSpeedBoost = Some Speed
   \<and> maxSpeed (player boostedState) = 16.875
   \<and> oldSpeedBoost \<notin> set (powerUps (updateGame lateEnv boostedState))
   \<and> maxSpeed (player (updateGame lateEnv boostedState)) = 7.5"
  using expiry_resets_to_base [of boostedState oldSpeedBoost 1000 lateEnv]
  by (simp add: boostedState_def oldSpeedBoost_def lateEnv_def initState_def)

subsection \<open>Power-up spawn\<close>

text \<open>
  Claim C7. In every reachable state the power-up list (picked up or not) holds at most 2
  power-ups, before and after a tick. A tick's list consists of power-ups the list already
  had, of such power-ups stamped by a pick-up, and of at most one new power-up, which is
  there only if the tick found fewer than 2 in the list. The new power-up lies in
  \<open>[20, 780) \<times> [20, 580)\<close>, is active, has the full duration of 5000 ms and no
  activation timestamp.
\<close>

theorem spawn_respects_cap:
  assumes "reachable s" and "randomOk e"
  shows "length (powerUps s) \<le> 2
       \<and> length (powerUps (updateGame e s)) \<le> 2
       \<and> (\<forall>q \<in> set (powerUps (updateGame e s)).
             q \<in> set (powerUps s)
           \<or> (\<exists>pu \<in> set (powerUps s). q = pu\<lparr> startTime := Some (now e) \<rparr>)
           \<or> (length (powerUps s) < 2 \<and> q = newPowerUp e))
       \<and> 20 \<le> x (newPowerUp e) \<and> x (newPowerUp e) < CANVAS_WIDTH - 20
       \<and> 20 \<le> y (newPowerUp e) \<and> y (newPowerUp e) < CANVAS_HEIGHT - 20
       \<and> active (newPowerUp e)
       \<and> duration (newPowerUp e) = POWER_UP_DURATION
       \<and> startTime (newPowerUp e) = None"
proof -
  have cap: "length (powerUps s) \<le> 2" by (rule reachable_powerUps_cap [OF assms(1)])
  have cap': "length (powerUps (updateGame e s)) \<le> 2"
    by (rule length_powerUps_updateGame [OF cap])
  have src: "q \<in> set (powerUps s)
           \<or> (\<exists>pu \<in> set (powerUps s). q = pu\<lparr> startTime := Some (now e) \<rparr>)
           \<or> (length (powerUps s) < 2 \<and> q = newPowerUp e)"
    if q: "q \<in> set (powerUps (updateGame e s))" for q
  proof (cases "isPaused s")
    case True
    then show ?thesis using q by (simp add: updateGame_def)
  next
    case False
    let ?pk = "pickupPowerUps (now e) (movePlayer (keys s) (player s)) (powerUps s)"
    from q have "q \<in> set (snd ?pk) \<or> (length (powerUps s) < 2 \<and> q = newPowerUp e)"
      by (auto simp: powerUps_updateGame [OF False] spawnPowerUp_def snd_updatePowerUps
          split: if_splits)
    then show ?thesis using set_pickupPowerUps [of q "now e" _ "powerUps s"] by blast
  qed
  from cap cap' src newPowerUp_fresh [OF assms(2)] show ?thesis by blast
qed

theorem spawn_respects_cap_witness:
  "reachable (togglePause initState) \<and> randomOk spawnEnv
   \<and> length (powerUps (togglePause initState)) = 0
   \<and> powerUps (updateGame spawnEnv (togglePause initState)) = [newPowerUp spawnEnv]
   \<and> length (powerUps (updateGame spawnEnv (togglePause initState))) \<le> 2
   \<and> x (newPowerUp spawnEnv) = 400 \<and> y (newPowerUp spawnEnv) = 300
   \<and> active (newPowerUp spawnEnv)
   \<and> duration (newPowerUp spawnEnv) = 5000
   \<and> startTime (newPowerUp spawnEnv) = None"
proof -
  have r: "reachable (togglePause initState)"
    by (rule reachable.pauseButton [OF reachable.start])
  have o: "randomOk spawnEnv"
    by (simp add: randomOk_def spawnEnv_def)
  have u: "\<not> isPaused (togglePause initState)" "powerUps (togglePause initState) = []"
    by (simp_all add: togglePause_def initState_def)
  have pl: "powerUps (updateGame spawnEnv (togglePause initState)) = [newPowerUp spawnEnv]"
    by (simp add: powerUps_updateGame [OF u(1)] u(2) spawnPowerUp_def spawnEnv_def)
  have xy: "x (newPowerUp spawnEnv) = 400" "y (newPowerUp spawnEnv) = 300"
    by (simp_all add: newPowerUp_def spawnEnv_def)
  show ?thesis
    using spawn_respects_cap [OF r o] r o pl xy u(2) by simp
qed

subsection \<open>Reset\<close>

text \<open>
  Claim C8. From any match state, \<^verbatim>\<open>resetGame\<close> gives score (0,0), 180 seconds left, no
  power-ups, kick charge zero, the player, the AI and the ball at their initial positions
  with zero velocities, and the paused flag set.
\<close>

theorem resetGame_result:
  "score (resetGame s) = \<lparr> playerGoals = 0, aiGoals = 0 \<rparr>
   \<and> timeLeft (resetGame s) = 180
   \<and> powerUps (resetGame s) = []
   \<and> kickPower (resetGame s) = 0
   \<and> x (player (resetGame s)) = x initPlayer \<and> y (player (resetGame s)) = y initPlayer
   \<and> vx (player (resetGame s)) = 0 \<and> vy (player (resetGame s)) = 0
   \<and> x (ai (resetGame s)) = x initAi \<and> y (ai (resetGame s)) = y initAi
   \<and> vx (ai (resetGame s)) = 0 \<and> vy (ai (resetGame s)) = 0
   \<and> x (ball (resetGame s)) = x initBall \<and> y (ball (resetGame s)) = y initBall
   \<and> vx (ball (resetGame s)) = 0 \<and> vy (ball (resetGame s)) = 0
   \<and> isPaused (resetGame s)"
  by (simp add: resetGame_def initPlayer_def initAi_def initBall_def)

subsection \<open>AI steering\<close>

text \<open>
  Claim C9. AI steering divides by the AI-to-ball distance only under the guard
  \<open>dist > 0\<close>: the steering with partial division never fails and computes what the
  steering of the tick computes; and when ball and AI coincide the AI is left as it was,
  its velocity included.
\<close>

theorem steerAI_total:
  "steerAI_chk b a = Some (steerAI b a)
   \<and> (x b = x a \<and> y b = y a \<longrightarrow> steerAI b a = a)"
  by (simp add: steerAI_chk_def steerAI_def divide_chk_def Let_def)

theorem steerAI_total_witness:
  "x initBall = x aiOnBall \<and> y initBall = y aiOnBall
   \<and> steerAI_chk initBall aiOnBall = Some aiOnBall
   \<and> vx (steerAI initBall aiOnBall) = 3 \<and> vy (steerAI initBall aiOnBall) = -2"
  using steerAI_total [of initBall aiOnBall]
  by (simp add: initBall_def aiOnBall_def initAi_def)

subsection \<open>Goal detection\<close>

text \<open>
  Claim C10. When the goal-scoring step fires (the ball's x is below 0 or above the field
  width), it leaves the ball's spin, rotation accumulator and radius, the player, the AI
  and the power-up list as they were, and it does not touch the counter of the side that
  did not score.
\<close>

theorem goalCheck_frame:
  assumes "x (ball s) < 0 \<or> x (ball s) > CANVAS_WIDTH"
  shows "spin (ball (goalCheck s)) = spin (ball s)
       \<and> rotation (ball (goalCheck s)) = rotation (ball s)
       \<and> radius (ball (goalCheck s)) = radius (ball s)
       \<and> player (goalCheck s) = player s
       \<and> ai (goalCheck s) = ai s
       \<and> powerUps (goalCheck s) = powerUps s
       \<and> (if x (ball s) < 0
          then playerGoals (score (goalCheck s)) = playerGoals (score s)
          else aiGoals (score (goalCheck s)) = aiGoals (score s))"
  using assms by (simp add: goalCheck_def)

theorem goalCheck_frame_witness:
  "x (ball ballInLeftGoal) < 0
   \<and> spin (ball (goalCheck ballInLeftGoal)) = 0
   \<and> rotation (ball (goalCheck ballInLeftGoal)) = 0
   \<and> radius (ball (goalCheck ballInLeftGoal)) = 12
   \<and> player (goalCheck ballInLeftGoal) = initPlayer
   \<and> ai (goalCheck ballInLeftGoal) = initAi
   \<and> powerUps (goalCheck ballInLeftGoal) = []
   \<and> playerGoals (score (goalCheck ballInLeftGoal)) = 0"
  using goalCheck_frame [of ballInLeftGoal]
  by (simp add: ballInLeftGoal_def initState_def initBall_def)

end
